theory Spec2Isabelle
  imports Complex_Main "HOL-Library.Char_ord" "HOL-Library.List_Lexorder"
begin

chapter \<open>eddylicious: the foamFile-to-HDF5 converter and the Lund rescaling driver\<close>

text \<open>
  A shallow embedding of \<^verbatim>\<open>bin/convertFoamFileToHDF5.py\<close> and
  \<^verbatim>\<open>bin/runModLundRescaling.py\<close>. Python exceptions are values of the type
  \<open>error\<close>; a computation that may raise returns \<open>error + 'a\<close> with \<open>Inl\<close> the
  exception. Floating-point numbers are idealised as real numbers: the converter only
  copies them, and the driver's arithmetic is read in exact arithmetic.
  The readers, writers and generators imported from the \<^verbatim>\<open>eddylicious\<close> package,
  \<^verbatim>\<open>numpy\<close>'s file reader, the directory listing and Python's \<^verbatim>\<open>float\<close> and
  \<^verbatim>\<open>int\<close> conversions are not part of the two scripts; each run receives them in an
  environment record.
\<close>

section \<open>Python values\<close>

datatype error =
  IndexError | TypeError | ValueError | KeyError | AssertionError
  | ZeroDivisionError | OSError | IOError

text \<open>
  A numpy array of dimension 0, 1 or 2. A two-dimensional array carries its shape and
  an index function, so that every value of the type is a well-formed array.
\<close>

datatype ndarray =
  Array0 real
  | Array1 "real list"
  | Array2 nat nat "nat \<Rightarrow> nat \<Rightarrow> real"

text \<open>\<^verbatim>\<open>a[:, j]\<close> for a non-negative constant \<open>j\<close>: too many indices for an array of
  dimension below 2, index out of bounds for \<open>j\<close> beyond the second axis.\<close>

fun column :: "ndarray \<Rightarrow> nat \<Rightarrow> error + real list" where
  "column (Array2 nr nc f) j =
     (if j < nc then Inr (map (\<lambda>i. f i j) [0..<nr]) else Inl IndexError)"
| "column _ j = Inl IndexError"

text \<open>\<^verbatim>\<open>a.shape[1]\<close>: the shape tuple of an array of dimension below 2 has no index 1.\<close>

fun shape1 :: "ndarray \<Rightarrow> error + nat" where
  "shape1 (Array2 nr nc f) = Inr nc"
| "shape1 _ = Inl IndexError"

text \<open>\<^verbatim>\<open>a.size\<close>: the total number of elements.\<close>

fun np_size :: "ndarray \<Rightarrow> nat" where
  "np_size (Array0 x) = 1"
| "np_size (Array1 xs) = length xs"
| "np_size (Array2 nr nc f) = nr * nc"

text \<open>\<^verbatim>\<open>a[0]\<close> and \<^verbatim>\<open>a[-1]\<close> on an array: a 0-d array cannot be indexed, an empty
  axis has no first or last entry.\<close>

fun item_first :: "ndarray \<Rightarrow> error + ndarray" where
  "item_first (Array0 x) = Inl IndexError"
| "item_first (Array1 xs) = (case xs of [] \<Rightarrow> Inl IndexError | x # _ \<Rightarrow> Inr (Array0 x))"
| "item_first (Array2 nr nc f) =
     (if nr = 0 then Inl IndexError else Inr (Array1 (map (f 0) [0..<nc])))"

fun item_last :: "ndarray \<Rightarrow> error + ndarray" where
  "item_last (Array0 x) = Inl IndexError"
| "item_last (Array1 xs) = (if xs = [] then Inl IndexError else Inr (Array0 (last xs)))"
| "item_last (Array2 nr nc f) =
     (if nr = 0 then Inl IndexError else Inr (Array1 (map (f (nr - 1)) [0..<nc])))"

text \<open>\<^verbatim>\<open>xs[0]\<close> and \<^verbatim>\<open>xs[-1]\<close> on a sequence.\<close>

definition py_first :: "'a list \<Rightarrow> error + 'a" where
  "py_first xs = (case xs of [] \<Rightarrow> Inl IndexError | x # _ \<Rightarrow> Inr x)"

definition py_last :: "'a list \<Rightarrow> error + 'a" where
  "py_last xs = (if xs = [] then Inl IndexError else Inr (last xs))"

text \<open>\<^verbatim>\<open>xs[i]\<close> for a non-negative index.\<close>

definition py_nth :: "'a list \<Rightarrow> nat \<Rightarrow> error + 'a" where
  "py_nth xs i = (if i < length xs then Inr (xs ! i) else Inl IndexError)"

text \<open>
  \<^verbatim>\<open>s[:, 0]\<close> on a \<^verbatim>\<open>str\<close>: a string accepts an integer or a slice as index, and
  the subscript \<^verbatim>\<open>:, 0\<close> is a tuple, so the expression raises \<^verbatim>\<open>TypeError\<close> for
  every string.
\<close>

definition str_getitem_tuple :: "string \<Rightarrow> error + string" where
  "str_getitem_tuple s = Inl TypeError"

section \<open>The chunk partitioner\<close>

text \<open>
  Modelled from the spec: \<^verbatim>\<open>chunks_and_offsets\<close> lives in
  \<^verbatim>\<open>eddylicious.generators.helper_functions\<close>, which is not among the sources; only
  its call \<^verbatim>\<open>chunks_and_offsets(nProcs, len(times))\<close> is. The spec gives each worker
  \<open>floor(N/P)\<close> items, one more for the first \<open>N mod P\<close> workers, and makes every
  offset the sum of the sizes before it.
\<close>

definition chunk_sizes :: "nat \<Rightarrow> nat \<Rightarrow> nat list" where
  "chunk_sizes P N = map (\<lambda>k. N div P + (if k < N mod P then 1 else 0)) [0..<P]"

fun running_offsets :: "nat \<Rightarrow> nat list \<Rightarrow> nat list" where
  "running_offsets acc [] = []"
| "running_offsets acc (c # cs) = acc # running_offsets (acc + c) cs"

definition chunks_and_offsets :: "nat \<Rightarrow> nat \<Rightarrow> nat list \<times> nat list" where
  "chunks_and_offsets nProcs N =
     (let chunks = chunk_sizes nProcs N in (chunks, running_offsets 0 chunks))"

text \<open>The first index of worker \<open>k\<close>'s range, in closed form.\<close>

definition range_start :: "nat \<Rightarrow> nat \<Rightarrow> nat \<Rightarrow> nat" where
  "range_start P N k = k * (N div P) + min k (N mod P)"

section \<open>HDF5 archives\<close>

text \<open>
  An archive is a tree of groups and datasets, kept as a map from the path of a node to
  the node, and a map of root attributes. A dataset is known by its shape; the numbers
  stored in it are not modelled.
\<close>

datatype h5node = Group | Dataset "nat list"

record h5file =
  nodes :: "string \<rightharpoonup> h5node"
  attrs :: "string \<rightharpoonup> nat"

definition h5_empty :: h5file where
  "h5_empty = \<lparr>nodes = Map.empty, attrs = Map.empty\<rparr>"

text \<open>
  An operation on an open archive returns the exception it raised, if any, and the
  archive as it left it. \<^verbatim>\<open>create_group\<close> and \<^verbatim>\<open>create_dataset\<close> refuse a name
  that is taken.
\<close>

type_synonym h5op = "h5file \<Rightarrow> error option \<times> h5file"

definition create_group :: "string \<Rightarrow> h5op" where
  "create_group name f =
     (if name \<in> dom (nodes f) then (Some ValueError, f)
      else (None, f\<lparr>nodes := (nodes f)(name \<mapsto> Group)\<rparr>))"

definition create_dataset :: "string \<Rightarrow> nat list \<Rightarrow> h5op" where
  "create_dataset name shp f =
     (if name \<in> dom (nodes f) then (Some ValueError, f)
      else (None, f\<lparr>nodes := (nodes f)(name \<mapsto> Dataset shp)\<rparr>))"

definition set_attr :: "string \<Rightarrow> nat \<Rightarrow> h5op" where
  "set_attr name v f = (None, f\<lparr>attrs := (attrs f)(name \<mapsto> v)\<rparr>)"

text \<open>Statements in sequence: the first exception ends the run.\<close>

fun run_ops :: "h5op list \<Rightarrow> h5op" where
  "run_ops [] f = (None, f)"
| "run_ops (op # ops) f =
     (case op f of (Some e, f') \<Rightarrow> (Some e, f') | (None, f') \<Rightarrow> run_ops ops f')"

section \<open>The converter: \<^verbatim>\<open>convertFoamFileToHDF5.py\<close>\<close>

text \<open>
  What one run of a script receives from outside the script: the rank of the process,
  Python's \<^verbatim>\<open>float\<close> on a string (\<open>None\<close> for \<^verbatim>\<open>ValueError\<close>), the listing of
  the directory of time-steps and \<^verbatim>\<open>np.genfromtxt\<close>; for the converter also the
  number of processes, the command-line argument and the two readers. The index arrays
  \<^verbatim>\<open>yInd\<close> and \<^verbatim>\<open>zInd\<close> are only handed from one reader to the other and are left
  out. \<^verbatim>\<open>read_velocity\<close> stands for the call \<^verbatim>\<open>readFunc(times[position])\<close> together
  with the three slice assignments that store its result.
\<close>

record py_env =
  rank :: nat
  py_float :: "string \<Rightarrow> real option"
  listdir_dataDir :: "error + string list"
  genfromtxt :: "string \<Rightarrow> error + ndarray"

record conv_env = py_env +
  nProcs :: nat
  uMeanFile :: string
  read_points_from_foamfile :: "string \<Rightarrow> ndarray \<Rightarrow> ndarray \<Rightarrow> error + ndarray \<times> ndarray"
  read_velocity :: "string \<Rightarrow> error option"

text \<open>
  Lines 70 to 76: the mean profile. \<^verbatim>\<open>uMeanX = uMean[:, 1]\<close>; when the array has
  exactly two columns \<^verbatim>\<open>uMeanY = uMean[:, 2]\<close>, otherwise zeros; then
  \<^verbatim>\<open>y = np.genfromtxt(uMeanFile[:, 0])\<close>, where \<^verbatim>\<open>uMeanFile\<close> is the file name.
\<close>

definition mean_profile :: "conv_env \<Rightarrow> ndarray \<Rightarrow> error + real list \<times> real list \<times> ndarray" where
  "mean_profile env uMean =
     (case column uMean 1 of Inl e \<Rightarrow> Inl e | Inr uMeanX \<Rightarrow>
      (case shape1 uMean of Inl e \<Rightarrow> Inl e | Inr c \<Rightarrow>
      (case (if c = 2 then column uMean 2 else Inr (replicate (length uMeanX) 0)) of
        Inl e \<Rightarrow> Inl e | Inr uMeanY \<Rightarrow>
      (case str_getitem_tuple (uMeanFile env) of Inl e \<Rightarrow> Inl e | Inr name \<Rightarrow>
      (case genfromtxt env name of Inl e \<Rightarrow> Inl e | Inr y \<Rightarrow>
      Inr (uMeanX, uMeanY, y))))))"

text \<open>Lines 79 to 83: the grid, read from the first time directory, and its shape
  (unpacking the shape of an array that is not two-dimensional raises).\<close>

definition read_grid :: "conv_env \<Rightarrow> string list \<Rightarrow> ndarray \<Rightarrow> error + ndarray \<times> ndarray \<times> nat \<times> nat" where
  "read_grid env timeDirs y =
     (case py_first timeDirs of Inl e \<Rightarrow> Inl e | Inr first \<Rightarrow>
      (case item_first y of Inl e \<Rightarrow> Inl e | Inr addValBot \<Rightarrow>
      (case item_last y of Inl e \<Rightarrow> Inl e | Inr addValTop \<Rightarrow>
      (case read_points_from_foamfile env first addValBot addValTop of Inl e \<Rightarrow> Inl e
      | Inr (pointsY, pointsZ) \<Rightarrow>
          (case pointsY of
             Array2 nPointsY nPointsZ f \<Rightarrow> Inr (pointsY, pointsZ, nPointsY, nPointsZ)
           | _ \<Rightarrow> Inl ValueError)))))"

text \<open>Line 85: \<^verbatim>\<open>assert nPointsY == uMean.size\<close>.\<close>

definition grid_assertion :: "nat \<Rightarrow> ndarray \<Rightarrow> bool" where
  "grid_assertion nPointsY uMean = (nPointsY = np_size uMean)"

text \<open>The shape of a dataset created from an array.\<close>

fun np_shape :: "ndarray \<Rightarrow> nat list" where
  "np_shape (Array0 x) = []"
| "np_shape (Array1 xs) = [length xs]"
| "np_shape (Array2 nr nc f) = [nr, nc]"

text \<open>Lines 104 and 105: the \<^verbatim>\<open>times\<close> dataset holds \<^verbatim>\<open>float(times[i])\<close> for every
  time directory; a name that is not a number raises before the dataset is created.\<close>

definition create_times_dataset :: "conv_env \<Rightarrow> string list \<Rightarrow> h5op" where
  "create_times_dataset env timeDirs f =
     (if \<exists>t \<in> set timeDirs. py_float env t = None then (Some ValueError, f)
      else create_dataset ''velocity/times'' [length timeDirs] f)"

text \<open>Lines 95 to 122: the groups, the datasets and the root attributes.\<close>

definition write_layout ::
  "conv_env \<Rightarrow> string list \<Rightarrow> ndarray \<Rightarrow> ndarray \<Rightarrow> nat \<Rightarrow> nat \<Rightarrow> real list \<Rightarrow> real list \<Rightarrow> h5op" where
  "write_layout env timeDirs pointsY pointsZ nPointsY nPointsZ uMeanX uMeanY =
     run_ops
      [create_group ''points'',
       create_group ''velocity'',
       create_dataset ''points/pointsY'' (np_shape pointsY),
       create_dataset ''points/pointsZ'' (np_shape pointsZ),
       create_dataset ''velocity/uMeanX'' [length uMeanX],
       create_dataset ''velocity/uMeanY'' [length uMeanY],
       create_times_dataset env timeDirs,
       create_dataset ''velocity/uX'' [length timeDirs, nPointsY, nPointsZ],
       create_dataset ''velocity/uY'' [length timeDirs, nPointsY, nPointsZ],
       create_dataset ''velocity/uZ'' [length timeDirs, nPointsY, nPointsZ],
       set_attr ''nPointsY'' nPointsY,
       set_attr ''nPointsZ'' nPointsZ,
       set_attr ''nPoints'' (np_size pointsY)]"

text \<open>Lines 133 to 143: this rank's share of the time-steps, read one by one. The
  progress message has no effect on the archive and is left out.\<close>

fun fill_loop :: "conv_env \<Rightarrow> string list \<Rightarrow> nat \<Rightarrow> nat list \<Rightarrow> error option" where
  "fill_loop env timeDirs offset [] = None"
| "fill_loop env timeDirs offset (i # is) =
     (case py_nth timeDirs (offset + i) of Inl e \<Rightarrow> Some e
      | Inr t \<Rightarrow> (case read_velocity env t of Some e \<Rightarrow> Some e
                  | None \<Rightarrow> fill_loop env timeDirs offset is))"

text \<open>Lines 124 to 149: partition the time-steps, build the velocity reader (its
  boundary values are the first and last entries of the mean profile), fill.\<close>

definition read_fluctuations :: "conv_env \<Rightarrow> string list \<Rightarrow> real list \<Rightarrow> real list \<Rightarrow> error option" where
  "read_fluctuations env timeDirs uMeanX uMeanY =
     (case chunks_and_offsets (nProcs env) (length timeDirs) of (chunks, offsets) \<Rightarrow>
      (if uMeanX = [] \<or> uMeanY = [] then Some IndexError
      else (case py_nth chunks (rank env) of Inl e \<Rightarrow> Some e | Inr n \<Rightarrow>
           (case py_nth offsets (rank env) of Inl e \<Rightarrow> Some e | Inr offset \<Rightarrow>
           fill_loop env timeDirs offset [0..<n]))))"

text \<open>
  Lines 83 to 151, everything after the mean profile. The second argument and the
  second result are the file at the output path: \<open>None\<close> when there is none. Rank 0
  removes an existing file; the archive is then opened in append mode, which creates
  it when it is absent.
\<close>

definition convert_from_grid ::
  "conv_env \<Rightarrow> string list \<Rightarrow> ndarray \<Rightarrow> real list \<Rightarrow> real list \<Rightarrow> ndarray
     \<Rightarrow> h5file option \<Rightarrow> error option \<times> h5file option" where
  "convert_from_grid env timeDirs uMean uMeanX uMeanY y file =
     (case read_grid env timeDirs y of Inl e \<Rightarrow> (Some e, file)
      | Inr (pointsY, pointsZ, nPointsY, nPointsZ) \<Rightarrow>
          (if \<not> grid_assertion nPointsY uMean then (Some AssertionError, file)
          else
            (let file' = (if rank env = 0 then None else file);
                dbFile = (case file' of None \<Rightarrow> h5_empty | Some f \<Rightarrow> f)
            in case write_layout env timeDirs pointsY pointsZ nPointsY nPointsZ uMeanX uMeanY dbFile of
                 (Some e, f) \<Rightarrow> (Some e, Some f)
               | (None, f) \<Rightarrow> (read_fluctuations env timeDirs uMeanX uMeanY, Some f))))"

text \<open>\<^verbatim>\<open>main()\<close>: the sorted list of time directories, the mean profile, the rest.\<close>

definition main :: "conv_env \<Rightarrow> h5file option \<Rightarrow> error option \<times> h5file option" where
  "main env file =
     (case listdir_dataDir env of Inl e \<Rightarrow> (Some e, file) | Inr listing \<Rightarrow>
      (let timeDirs = sort listing in
      (case genfromtxt env (uMeanFile env) of Inl e \<Rightarrow> (Some e, file) | Inr uMean \<Rightarrow>
      (case mean_profile env uMean of Inl e \<Rightarrow> (Some e, file)
      | Inr (uMeanX, uMeanY, y) \<Rightarrow> convert_from_grid env timeDirs uMean uMeanX uMeanY y file))))"

text \<open>
  The module: its last statement is \<^verbatim>\<open>if __name__ == " __main__": main()\<close>. The
  result is \<open>None\<close> when \<^verbatim>\<open>main\<close> was not called, and the file at the output path.
\<close>

definition entry_guard :: "string \<Rightarrow> bool" where
  "entry_guard name = (name = '' __main__'')"

definition convert_script ::
  "string \<Rightarrow> conv_env \<Rightarrow> h5file option \<Rightarrow> error option option \<times> h5file option" where
  "convert_script name env file =
     (if entry_guard name then (case main env file of (r, file') \<Rightarrow> (Some r, file'))
      else (None, file))"

text \<open>
  A concrete run, used to evaluate the converter: two time directories, a mean-profile
  file with the two rows \<^verbatim>\<open>0 0\<close> and \<^verbatim>\<open>1 10\<close>, a grid of two by three points.
\<close>

definition example_uMean :: ndarray where
  "example_uMean = Array2 2 2 (\<lambda>i j. [[0, 0], [1, 10]] ! i ! j)"

definition example_grid :: "ndarray \<times> ndarray" where
  "example_grid = (Array2 2 3 (\<lambda>i j. real i), Array2 2 3 (\<lambda>i j. real j))"

definition example_env :: conv_env where
  "example_env =
     \<lparr>rank = 0,
      py_float = (\<lambda>s. if s = ''0.1'' then Some (1 / 10)
                      else if s = ''0.2'' then Some (2 / 10) else None),
      listdir_dataDir = Inr [''0.2'', ''0.1''],
      genfromtxt = (\<lambda>name. Inr example_uMean),
      nProcs = 1, uMeanFile = ''uMean.xy'',
      read_points_from_foamfile = (\<lambda>t addValBot addValTop. Inr example_grid),
      read_velocity = (\<lambda>t. None)\<rparr>"

text \<open>The archive that the layout stage of the converter writes for this run.\<close>

definition example_archive :: h5file where
  "example_archive =
     \<lparr>nodes = [''points'' \<mapsto> Group, ''velocity'' \<mapsto> Group,
               ''points/pointsY'' \<mapsto> Dataset [2, 3], ''points/pointsZ'' \<mapsto> Dataset [2, 3],
               ''velocity/uMeanX'' \<mapsto> Dataset [2], ''velocity/uMeanY'' \<mapsto> Dataset [2],
               ''velocity/times'' \<mapsto> Dataset [2],
               ''velocity/uX'' \<mapsto> Dataset [2, 2, 3], ''velocity/uY'' \<mapsto> Dataset [2, 2, 3],
               ''velocity/uZ'' \<mapsto> Dataset [2, 2, 3]],
      attrs = [''nPointsY'' \<mapsto> 2, ''nPointsZ'' \<mapsto> 3, ''nPoints'' \<mapsto> 6]\<rparr>"

section \<open>The rescaling driver: \<^verbatim>\<open>runModLundRescaling.py\<close>\<close>

text \<open>
  The driver is a Python 2 script that runs from top to bottom. Its environment adds
  the dictionary read from the config file (lines 34 to 41), Python's \<^verbatim>\<open>int\<close> on a
  string, the second directory listing, the two calls of the point reader, and the
  outcome of every call into the package:
  \<^item> \<open>precursor_thickness\<close> is lines 159 and 160 together, the call
    \<^verbatim>\<open>delta_99(yPrec, uMean)\<close> and the Reynolds number computed from its result;
    whether that division can raise depends on the type \<^verbatim>\<open>delta_99\<close> returns;
  \<^item> \<open>hdf5_opened\<close> is the archive found at the output path when
    \<^verbatim>\<open>h5py.File\<close> opens it, after rank 0 has called \<^verbatim>\<open>write_points_to_hdf5\<close>;
  \<^item> the writers and generators appear as the exception they raise, if any.
  A value that is only handed on to the generators (\<^verbatim>\<open>U0\<close>, \<^verbatim>\<open>gamma\<close>, the inner
  coordinates, the Reynolds numbers of the friction velocity) is not computed; the
  statements that compute it are modelled where they can raise. Of the printed lines
  only the error reports are kept.
\<close>

record drv_env = py_env +
  configDict :: "string \<rightharpoonup> string"
  py_int :: "string \<Rightarrow> int option"
  listdir_collapsedFields :: "error + string list"
  read_points_recycling :: "string \<Rightarrow> nat \<Rightarrow> error + ndarray \<times> ndarray"
  read_points_inflow :: "error + ndarray \<times> ndarray"
  precursor_thickness :: "real list \<Rightarrow> real list \<Rightarrow> real \<Rightarrow> real \<Rightarrow> error + real"
  write_points_to_tvmfv :: "error option"
  write_points_to_hdf5 :: "error option"
  hdf5_opened :: h5file
  mod_lund_rescale_mean_velocity :: "error + ndarray"
  theta :: "error option"
  delta_star :: "error option"
  mod_lund_generate :: "error option"

datatype message = UnknownReader string | UnknownWriter string | Delta99TooLarge

text \<open>
  How the process ends: \<^verbatim>\<open>exit()\<close> was called after the messages given, an exception
  went uncaught, or the script ran to its last line. \<^verbatim>\<open>exit\<close> is \<^verbatim>\<open>sys.exit\<close>;
  every call in the script passes no argument, which is exit status 0. An uncaught
  exception ends the interpreter with status 1.
\<close>

datatype outcome = Exited nat "message list" | Raised error | Finished

definition exit_no_argument :: "message list \<Rightarrow> outcome" where
  "exit_no_argument msgs = Exited 0 msgs"

fun process_status :: "outcome \<Rightarrow> nat" where
  "process_status (Exited status msgs) = status"
| "process_status (Raised e) = 1"
| "process_status Finished = 0"

fun reported :: "outcome \<Rightarrow> message list" where
  "reported (Exited status msgs) = msgs"
| "reported _ = []"

text \<open>\<^verbatim>\<open>configDict[key]\<close>, \<^verbatim>\<open>float(configDict[key])\<close> and \<^verbatim>\<open>int(configDict[key])\<close>.\<close>

definition config :: "'a drv_env_scheme \<Rightarrow> string \<Rightarrow> error + string" where
  "config env key = (case configDict env key of None \<Rightarrow> Inl KeyError | Some v \<Rightarrow> Inr v)"

definition config_float :: "'a drv_env_scheme \<Rightarrow> string \<Rightarrow> error + real" where
  "config_float env key =
     (case config env key of Inl e \<Rightarrow> Inl e
      | Inr v \<Rightarrow> (case py_float env v of None \<Rightarrow> Inl ValueError | Some x \<Rightarrow> Inr x))"

definition config_int :: "'a drv_env_scheme \<Rightarrow> string \<Rightarrow> error + int" where
  "config_int env key =
     (case config env key of Inl e \<Rightarrow> Inl e
      | Inr v \<Rightarrow> (case py_int env v of None \<Rightarrow> Inl ValueError | Some x \<Rightarrow> Inr x))"

text \<open>Lines 43 to 54: nine entries of the dictionary are read, in this order; the first
  missing key raises. Only the three names of readers and writer steer the script.\<close>

fun first_missing :: "'a drv_env_scheme \<Rightarrow> string list \<Rightarrow> error option" where
  "first_missing env [] = None"
| "first_missing env (k # ks) =
     (case config env k of Inl e \<Rightarrow> Some e | Inr v \<Rightarrow> first_missing env ks)"

record settings =
  reader :: string
  inflowReader :: string
  writer :: string

definition read_settings :: "'a drv_env_scheme \<Rightarrow> error + settings" where
  "read_settings env =
     (case first_missing env [''readPath'', ''inflowReadPath'', ''writePath'',
             ''sampleSurfaceName'', ''inletPatchName''] of Some e \<Rightarrow> Inl e | None \<Rightarrow>
      (case config env ''reader'' of Inl e \<Rightarrow> Inl e | Inr r \<Rightarrow>
      (case config env ''inflowReader'' of Inl e \<Rightarrow> Inl e | Inr ir \<Rightarrow>
      (case config env ''writer'' of Inl e \<Rightarrow> Inl e | Inr w \<Rightarrow>
      (case config env ''hdf5FileName'' of Inl e \<Rightarrow> Inl e | Inr h \<Rightarrow>
      Inr \<lparr>reader = r, inflowReader = ir, writer = w\<rparr>)))))"

text \<open>\<^verbatim>\<open>[n, m] = a.shape\<close>.\<close>

fun unpack_shape :: "ndarray \<Rightarrow> error + nat \<times> nat" where
  "unpack_shape (Array2 nr nc f) = Inr (nr, nc)"
| "unpack_shape _ = Inl ValueError"

text \<open>
  Lines 56 to 98: the database of the precursor. A reader other than \<^verbatim>\<open>foamFile\<close>
  prints the error and calls \<^verbatim>\<open>exit()\<close>. The mean profile is the second column of
  the last file of collapsed fields with a zero put in front; the grid of the
  recycling plane is read from the first time directory.
\<close>

definition read_precursor ::
  "'a drv_env_scheme \<Rightarrow> settings \<Rightarrow> outcome + string list \<times> real list \<times> ndarray \<times> ndarray" where
  "read_precursor env s =
     (if reader s \<noteq> ''foamFile'' then Inl (exit_no_argument [UnknownReader (reader s)])
      else (case listdir_dataDir env of Inl e \<Rightarrow> Inl (Raised e) | Inr listing \<Rightarrow>
      (let timeDirs = sort listing in
      (case listdir_collapsedFields env of Inl e \<Rightarrow> Inl (Raised e) | Inr uMeanTimes \<Rightarrow>
      (case py_last uMeanTimes of Inl e \<Rightarrow> Inl (Raised e) | Inr lastTime \<Rightarrow>
      (case genfromtxt env lastTime of Inl e \<Rightarrow> Inl (Raised e) | Inr table \<Rightarrow>
      (case column table 1 of Inl e \<Rightarrow> Inl (Raised e) | Inr col \<Rightarrow>
      (let uMean = 0 # col; nPointsY = length uMean in
      (case py_first timeDirs of Inl e \<Rightarrow> Inl (Raised e) | Inr firstTime \<Rightarrow>
      (case read_points_recycling env firstTime nPointsY of Inl e \<Rightarrow> Inl (Raised e)
      | Inr (pointsY, pointsZ) \<Rightarrow>
      (case unpack_shape pointsY of Inl e \<Rightarrow> Inl (Raised e)
      | Inr (nPointsY, nPointsZ) \<Rightarrow> Inr (timeDirs, uMean, pointsY, pointsZ))))))))))))"

text \<open>Lines 101 to 110: the grid of the inflow plane, with the same test of the name
  of its reader.\<close>

definition read_inflow :: "'a drv_env_scheme \<Rightarrow> settings \<Rightarrow> outcome + ndarray \<times> ndarray \<times> nat" where
  "read_inflow env s =
     (if inflowReader s \<noteq> ''foamFile''
      then Inl (exit_no_argument [UnknownReader (inflowReader s)])
      else (case read_points_inflow env of Inl e \<Rightarrow> Inl (Raised e)
      | Inr (pointsYInfl, pointsZInfl) \<Rightarrow>
      (case unpack_shape pointsYInfl of Inl e \<Rightarrow> Inl (Raised e)
      | Inr (nPointsYInfl, nPointsZInfl) \<Rightarrow> Inr (pointsYInfl, pointsZInfl, nPointsZInfl))))"

record database =
  tms :: "string list"
  uMean :: "real list"
  pointsY :: ndarray
  pointsZ :: ndarray
  pointsYInfl :: ndarray
  pointsZInfl :: ndarray
  nPointsZInfl :: nat

definition read_database :: "'a drv_env_scheme \<Rightarrow> settings \<Rightarrow> outcome + database" where
  "read_database env s =
     (case read_precursor env s of Inl out \<Rightarrow> Inl out
      | Inr (timeDirs, uMean', pointsY', pointsZ') \<Rightarrow>
      (case read_inflow env s of Inl out \<Rightarrow> Inl out
      | Inr (pointsYInfl', pointsZInfl', nPointsZInfl') \<Rightarrow>
      Inr \<lparr>tms = timeDirs, uMean = uMean', pointsY = pointsY', pointsZ = pointsZ',
           pointsYInfl = pointsYInfl', pointsZInfl = pointsZInfl',
           nPointsZInfl = nPointsZInfl'\<rparr>))"

text \<open>
  Lines 115 to 153: the parameters of the boundary layer and of the time axis, all
  Python floats. Dividing by a zero float raises \<^verbatim>\<open>ZeroDivisionError\<close>; \<^verbatim>\<open>pow\<close> of a
  negative float to the power \<open>1/6\<close> raises \<^verbatim>\<open>ValueError\<close> in Python 2. With
  \<^verbatim>\<open>uTauInflow\<close> set to \<^verbatim>\<open>compute\<close> the friction velocity comes out of \<^verbatim>\<open>np.sqrt\<close> as
  a numpy scalar, whose division by zero only warns; a friction velocity given as a
  number is a Python float, and \<^verbatim>\<open>gamma = uTauInfl/uTauPrec\<close> can raise.
\<close>

definition skin_friction :: "real \<Rightarrow> real \<Rightarrow> real \<Rightarrow> error + real" where
  "skin_friction Ue deltaInfl nuInfl =
     (if nuInfl = 0 then Inl ZeroDivisionError
      else let ReDelta = Ue * deltaInfl / nuInfl in
        (if ReDelta = 0 then Inl ZeroDivisionError
        else if 1 / ReDelta < 0 then Inl ValueError
        else Inr (0.02 * (1 / ReDelta) powr (1 / 6))))"

text \<open>Python's \<^verbatim>\<open>int\<close> on a float drops the fractional part.\<close>

definition int_of_float :: "real \<Rightarrow> int" where
  "int_of_float x = (if 0 \<le> x then \<lfloor>x\<rfloor> else \<lceil>x\<rceil>)"

text \<open>Line 193: \<^verbatim>\<open>size = int((tEnd-t0)/dt+1)\<close>, on Python floats.\<close>

definition database_size :: "real \<Rightarrow> real \<Rightarrow> real \<Rightarrow> error + int" where
  "database_size t0 dt tEnd =
     (if dt = 0 then Inl ZeroDivisionError else Inr (int_of_float ((tEnd - t0) / dt + 1)))"

record parameters =
  nuInfl :: real
  nuPrec :: real
  deltaInfl :: real
  Ue :: real
  uTauPrec :: real
  xOrigin :: real
  yOrigin :: real
  dt :: real
  t0 :: real
  tEnd :: real
  timePrecision :: int

definition read_parameters :: "'a drv_env_scheme \<Rightarrow> error + parameters" where
  "read_parameters env =
     (case config_float env ''nuInflow'' of Inl e \<Rightarrow> Inl e | Inr nuInfl' \<Rightarrow>
      (case config_float env ''nuPrecursor'' of Inl e \<Rightarrow> Inl e | Inr nuPrec' \<Rightarrow>
      (case config_float env ''delta99'' of Inl e \<Rightarrow> Inl e | Inr deltaInfl' \<Rightarrow>
      (case config_float env ''Ue'' of Inl e \<Rightarrow> Inl e | Inr Ue' \<Rightarrow>
      (case skin_friction Ue' deltaInfl' nuInfl' of Inl e \<Rightarrow> Inl e | Inr cfInfl \<Rightarrow>
      (case config env ''uTauInflow'' of Inl e \<Rightarrow> Inl e | Inr uTauInflow \<Rightarrow>
      (case (if uTauInflow = ''compute'' then Inr (Ue' * sqrt (cfInfl / 2))
            else config_float env ''uTauInflow'') of Inl e \<Rightarrow> Inl e | Inr uTauInfl \<Rightarrow>
      (case config_float env ''uTauPrecursor'' of Inl e \<Rightarrow> Inl e | Inr uTauPrec' \<Rightarrow>
      (if uTauInflow \<noteq> ''compute'' \<and> uTauPrec' = 0 then Inl ZeroDivisionError else
      (case config_float env ''xOrigin'' of Inl e \<Rightarrow> Inl e | Inr xOrigin' \<Rightarrow>
      (case config_float env ''yOrigin'' of Inl e \<Rightarrow> Inl e | Inr yOrigin' \<Rightarrow>
      (case config_float env ''dt'' of Inl e \<Rightarrow> Inl e | Inr dt' \<Rightarrow>
      (case config_float env ''t0'' of Inl e \<Rightarrow> Inl e | Inr t0' \<Rightarrow>
      (case config_float env ''tEnd'' of Inl e \<Rightarrow> Inl e | Inr tEnd' \<Rightarrow>
      (case config_int env ''tPrecision'' of Inl e \<Rightarrow> Inl e | Inr timePrecision' \<Rightarrow>
      Inr \<lparr>nuInfl = nuInfl', nuPrec = nuPrec', deltaInfl = deltaInfl', Ue = Ue',
           uTauPrec = uTauPrec', xOrigin = xOrigin', yOrigin = yOrigin',
           dt = dt', t0 = t0', tEnd = tEnd', timePrecision = timePrecision'\<rparr>)))))))))))))))"

text \<open>
  Lines 172 to 181, the two counts:
  \<^verbatim>\<open>for i in xrange(etaInfl.size): if etaInfl[i] <= etaPrec[-1]: nInfl += 1\<close>, and the
  same with the constant 0.7 for \<open>nInner\<close>. The first argument is what is left of
  \<open>etaInfl\<close>, the last the counter.
\<close>

fun count_nInfl :: "real list \<Rightarrow> real list \<Rightarrow> nat \<Rightarrow> error + nat" where
  "count_nInfl [] etaPrec nInfl = Inr nInfl"
| "count_nInfl (eta # rest) etaPrec nInfl =
     (case py_last etaPrec of Inl e \<Rightarrow> Inl e
      | Inr etaTop \<Rightarrow>
          count_nInfl rest etaPrec (if eta \<le> etaTop then nInfl + 1 else nInfl))"

fun count_nInner :: "real list \<Rightarrow> nat \<Rightarrow> nat" where
  "count_nInner [] nInner = nInner"
| "count_nInner (eta # rest) nInner =
     count_nInner rest (if eta \<le> 0.7 then nInner + 1 else nInner)"

text \<open>
  Lines 156 to 181: the wall-normal coordinates of both planes and the two counts. The
  precursor's outer coordinate is \<^verbatim>\<open>etaPrec = yPrec\<close>; the line that divided it by
  \<^verbatim>\<open>deltaPrec\<close> is commented out. \<^verbatim>\<open>etaInfl = yInfl/deltaInfl\<close> is a numpy division.
\<close>

record coordinates =
  yPrec :: "real list"
  yInfl :: "real list"
  deltaPrec :: real
  etaPrec :: "real list"
  etaInfl :: "real list"
  nInfl :: nat
  nInner :: nat

definition scale_coordinates ::
  "'a drv_env_scheme \<Rightarrow> database \<Rightarrow> parameters \<Rightarrow> error + coordinates" where
  "scale_coordinates env db p =
     (case column (pointsY db) 0 of Inl e \<Rightarrow> Inl e | Inr yPrec' \<Rightarrow>
      (case column (pointsYInfl db) 0 of Inl e \<Rightarrow> Inl e | Inr col \<Rightarrow>
      (let yInfl' = map (\<lambda>y. y - yOrigin p) col in
      (case precursor_thickness env yPrec' (uMean db) (uTauPrec p) (nuPrec p) of
        Inl e \<Rightarrow> Inl e | Inr deltaPrec' \<Rightarrow>
      (let etaPrec' = yPrec';
          etaInfl' = map (\<lambda>y. y / deltaInfl p) yInfl' in
      (case count_nInfl etaInfl' etaPrec' 0 of Inl e \<Rightarrow> Inl e | Inr nInfl' \<Rightarrow>
      Inr \<lparr>yPrec = yPrec', yInfl = yInfl', deltaPrec = deltaPrec', etaPrec = etaPrec',
           etaInfl = etaInfl', nInfl = nInfl', nInner = count_nInner etaInfl' 0\<rparr>))))))"

text \<open>Lines 185 to 193: the desired thickness must not exceed the last inflow
  coordinate; then the number of time-steps.\<close>

definition sanity_checks :: "parameters \<Rightarrow> coordinates \<Rightarrow> outcome + int" where
  "sanity_checks p c =
     (case py_last (yInfl c) of Inl e \<Rightarrow> Inl (Raised e) | Inr yTop \<Rightarrow>
      (if deltaInfl p > yTop then Inl (exit_no_argument [Delta99TooLarge])
      else (case database_size (t0 p) (dt p) (tEnd p) of
             Inl e \<Rightarrow> Inl (Raised e) | Inr n \<Rightarrow> Inr n)))"

text \<open>
  Lines 217 to 219: the archive is opened and two datasets are added to its root,
  \<^verbatim>\<open>time\<close> from \<^verbatim>\<open>t0*np.ones((size, 1))\<close>, which a negative \<open>size\<close> makes raise, and
  \<^verbatim>\<open>velocity\<close> of shape \<^verbatim>\<open>(size, pointsZInfl.size, 3)\<close>.
\<close>

definition create_time_dataset :: "int \<Rightarrow> h5op" where
  "create_time_dataset n f =
     (if n < 0 then (Some ValueError, f) else create_dataset ''time'' [nat n, 1] f)"

definition create_velocity_dataset :: "int \<Rightarrow> nat \<Rightarrow> h5op" where
  "create_velocity_dataset n nPoints f =
     (if n < 0 then (Some ValueError, f) else create_dataset ''velocity'' [nat n, nPoints, 3] f)"

definition prepare_hdf5 :: "int \<Rightarrow> nat \<Rightarrow> h5op" where
  "prepare_hdf5 n nPoints = run_ops [create_time_dataset n, create_velocity_dataset n nPoints]"

text \<open>
  Lines 198 to 224: the writer. Rank 0 writes the points; for \<^verbatim>\<open>hdf5\<close> the archive is
  then prepared; any other name prints the error and calls \<^verbatim>\<open>exit()\<close>. The result is
  the archive, when there is one.
\<close>

definition prepare_writer ::
  "'a drv_env_scheme \<Rightarrow> settings \<Rightarrow> database \<Rightarrow> int \<Rightarrow> outcome + h5file option" where
  "prepare_writer env s db n =
     (if writer s = ''tvmfv'' then
        (case (if rank env = 0 then write_points_to_tvmfv env else None) of
           Some e \<Rightarrow> Inl (Raised e) | None \<Rightarrow> Inr None)
      else if writer s = ''hdf5'' then
        (case (if rank env = 0 then write_points_to_hdf5 env else None) of
           Some e \<Rightarrow> Inl (Raised e)
         | None \<Rightarrow>
             (case prepare_hdf5 n (np_size (pointsZInfl db)) (hdf5_opened env) of
                (Some e, f) \<Rightarrow> Inl (Raised e) | (None, f) \<Rightarrow> Inr (Some f)))
      else Inl (exit_no_argument [UnknownWriter (writer s)]))"

text \<open>Lines 226 to 246: the rescaled mean profile, its two thicknesses (each indexes
  the first column of the profile), the generation of the inflow fields.\<close>

definition generate :: "'a drv_env_scheme \<Rightarrow> outcome" where
  "generate env =
     (case mod_lund_rescale_mean_velocity env of Inl e \<Rightarrow> Raised e | Inr uMeanInfl \<Rightarrow>
      (case column uMeanInfl 0 of Inl e \<Rightarrow> Raised e | Inr u \<Rightarrow>
      (case theta env of Some e \<Rightarrow> Raised e | None \<Rightarrow>
      (case delta_star env of Some e \<Rightarrow> Raised e | None \<Rightarrow>
      (case mod_lund_generate env of Some e \<Rightarrow> Raised e | None \<Rightarrow> Finished)))))"

text \<open>Lines 43 to 181, up to the sanity checks.\<close>

definition initialise ::
  "'a drv_env_scheme \<Rightarrow> outcome + settings \<times> database \<times> parameters \<times> coordinates" where
  "initialise env =
     (case read_settings env of Inl e \<Rightarrow> Inl (Raised e) | Inr s \<Rightarrow>
      (case read_database env s of Inl out \<Rightarrow> Inl out | Inr db \<Rightarrow>
      (case read_parameters env of Inl e \<Rightarrow> Inl (Raised e) | Inr p \<Rightarrow>
      (case scale_coordinates env db p of Inl e \<Rightarrow> Inl (Raised e) | Inr c \<Rightarrow>
      Inr (s, db, p, c)))))"

text \<open>The whole script.\<close>

definition driver :: "'a drv_env_scheme \<Rightarrow> outcome" where
  "driver env =
     (case initialise env of Inl out \<Rightarrow> out | Inr (s, db, p, c) \<Rightarrow>
      (case sanity_checks p c of Inl out \<Rightarrow> out | Inr n \<Rightarrow>
      (case prepare_writer env s db n of Inl out \<Rightarrow> out | Inr archive \<Rightarrow>
      generate env)))"

text \<open>
  A concrete run of the driver, with the parameters of the end-to-end scenario of the
  specification: a precursor of two time-steps on a grid in units of its own thickness,
  a mean profile file with the rows \<^verbatim>\<open>0.5 8\<close> and \<^verbatim>\<open>1 10\<close>, an inflow plane of four
  by two points. The run is a function of the config dictionary.
\<close>

definition scenario_config :: "string \<rightharpoonup> string" where
  "scenario_config = map_of
     [(''readPath'', ''prec''), (''inflowReadPath'', ''main''), (''writePath'', ''out''),
      (''sampleSurfaceName'', ''inletSurface''), (''inletPatchName'', ''inlet''),
      (''reader'', ''foamFile''), (''inflowReader'', ''foamFile''), (''writer'', ''hdf5''),
      (''hdf5FileName'', ''db.hdf5''),
      (''nuInflow'', ''1e-5''), (''nuPrecursor'', ''1e-5''), (''delta99'', ''0.05''),
      (''Ue'', ''10''), (''uTauInflow'', ''compute''), (''uTauPrecursor'', ''0.4''),
      (''xOrigin'', ''0''), (''yOrigin'', ''0''),
      (''dt'', ''0.01''), (''t0'', ''0''), (''tEnd'', ''0.02''), (''tPrecision'', ''3'')]"

definition scenario_float :: "string \<Rightarrow> real option" where
  "scenario_float = map_of
     [(''1e-5'', 1 / 100000), (''0.05'', 1 / 20), (''10'', 10), (''0.4'', 2 / 5),
      (''0'', 0), (''0.01'', 1 / 100), (''0.02'', 1 / 50), (''0.025'', 1 / 40)]"

definition scenario_points :: h5file where
  "scenario_points =
     \<lparr>nodes = [''points'' \<mapsto> Group, ''points/pointsY'' \<mapsto> Dataset [4, 2],
               ''points/pointsZ'' \<mapsto> Dataset [4, 2]],
      attrs = Map.empty\<rparr>"

definition scenario_env :: "(string \<rightharpoonup> string) \<Rightarrow> drv_env" where
  "scenario_env cfg =
     \<lparr>rank = 0,
      py_float = scenario_float,
      listdir_dataDir = Inr [''0.2'', ''0.1''],
      genfromtxt = (\<lambda>name. Inr (Array2 2 2 (\<lambda>i j. [[1 / 2, 8], [1, 10]] ! i ! j))),
      configDict = cfg,
      py_int = map_of [(''3'', 3)],
      listdir_collapsedFields = Inr [''0.2''],
      read_points_recycling =
        (\<lambda>t n. Inr (Array2 3 2 (\<lambda>i j. [0, 1 / 2, 1] ! i), Array2 3 2 (\<lambda>i j. real j))),
      read_points_inflow =
        Inr (Array2 4 2 (\<lambda>i j. [1 / 100, 1 / 25, 51 / 1000, 2 / 25] ! i),
             Array2 4 2 (\<lambda>i j. real j)),
      precursor_thickness = (\<lambda>y u uTau nu. Inr (39 / 40)),
      write_points_to_tvmfv = None,
      write_points_to_hdf5 = None,
      hdf5_opened = scenario_points,
      mod_lund_rescale_mean_velocity = Inr (Array2 4 2 (\<lambda>i j. 0)),
      theta = None,
      delta_star = None,
      mod_lund_generate = None\<rparr>"

text \<open>What the driver computes in the scenario, stage by stage.\<close>

definition scenario_settings :: settings where
  "scenario_settings =
     \<lparr>reader = ''foamFile'', inflowReader = ''foamFile'', writer = ''hdf5''\<rparr>"

definition scenario_database :: database where
  "scenario_database =
     \<lparr>tms = [''0.1'', ''0.2''], uMean = [0, 8, 10],
      pointsY = Array2 3 2 (\<lambda>i j. [0, 1 / 2, 1] ! i), pointsZ = Array2 3 2 (\<lambda>i j. real j),
      pointsYInfl = Array2 4 2 (\<lambda>i j. [1 / 100, 1 / 25, 51 / 1000, 2 / 25] ! i),
      pointsZInfl = Array2 4 2 (\<lambda>i j. real j), nPointsZInfl = 2\<rparr>"

definition scenario_parameters :: parameters where
  "scenario_parameters =
     \<lparr>nuInfl = 1 / 100000, nuPrec = 1 / 100000, deltaInfl = 1 / 20, Ue = 10,
      uTauPrec = 2 / 5, xOrigin = 0, yOrigin = 0,
      dt = 1 / 100, t0 = 0, tEnd = 1 / 50, timePrecision = 3\<rparr>"

definition scenario_coordinates :: coordinates where
  "scenario_coordinates =
     \<lparr>yPrec = [0, 1 / 2, 1], yInfl = [1 / 100, 1 / 25, 51 / 1000, 2 / 25],
      deltaPrec = 39 / 40, etaPrec = [0, 1 / 2, 1],
      etaInfl = [1 / 5, 4 / 5, 51 / 50, 8 / 5], nInfl = 2, nInner = 1\<rparr>"

definition scenario_archive :: h5file where
  "scenario_archive =
     \<lparr>nodes = [''points'' \<mapsto> Group, ''points/pointsY'' \<mapsto> Dataset [4, 2],
               ''points/pointsZ'' \<mapsto> Dataset [4, 2], ''time'' \<mapsto> Dataset [3, 1],
               ''velocity'' \<mapsto> Dataset [3, 8, 3]],
      attrs = Map.empty\<rparr>"

text \<open>The scenario with one entry of the config file changed: a reader, an inflow
  reader or a writer that does not exist, a thickness beyond the inflow plane.\<close>

definition bad_reader_config :: "string \<rightharpoonup> string" where
  "bad_reader_config = scenario_config(''reader'' \<mapsto> ''hdf5'')"

definition bad_inflow_reader_config :: "string \<rightharpoonup> string" where
  "bad_inflow_reader_config = scenario_config(''inflowReader'' \<mapsto> ''hdf5'')"

definition bad_writer_config :: "string \<rightharpoonup> string" where
  "bad_writer_config = scenario_config(''writer'' \<mapsto> ''vtk'')"

definition bad_delta_config :: "string \<rightharpoonup> string" where
  "bad_delta_config = scenario_config(''delta99'' \<mapsto> ''10'')"

section \<open>The statements of the specification\<close>


text \<open>
  The layout of the archive as the specification words it: a group \<^verbatim>\<open>points\<close> with
  two datasets, a group \<^verbatim>\<open>velocity\<close> with six, the three velocity components shaped
  by the number of time-steps and the grid, and three root attributes.
\<close>

definition is_dataset :: "h5file \<Rightarrow> string \<Rightarrow> bool" where
  "is_dataset f name = (case nodes f name of Some (Dataset shp) \<Rightarrow> True | _ \<Rightarrow> False)"

definition database_layout :: "h5file \<Rightarrow> nat \<Rightarrow> nat \<Rightarrow> nat \<Rightarrow> bool" where
  "database_layout f nTimes nPointsY nPointsZ =
     (nodes f ''points'' = Some Group
      \<and> is_dataset f ''points/pointsY'' \<and> is_dataset f ''points/pointsZ''
      \<and> nodes f ''velocity'' = Some Group
      \<and> is_dataset f ''velocity/uMeanX'' \<and> is_dataset f ''velocity/uMeanY''
      \<and> is_dataset f ''velocity/times''
      \<and> nodes f ''velocity/uX'' = Some (Dataset [nTimes, nPointsY, nPointsZ])
      \<and> nodes f ''velocity/uY'' = Some (Dataset [nTimes, nPointsY, nPointsZ])
      \<and> nodes f ''velocity/uZ'' = Some (Dataset [nTimes, nPointsY, nPointsZ])
      \<and> attrs f ''nPointsY'' = Some nPointsY
      \<and> attrs f ''nPointsZ'' = Some nPointsZ
      \<and> attrs f ''nPoints'' = Some (nPointsY * nPointsZ))"






section \<open>Properties of the chunk partitioner\<close>

lemma length_running_offsets: "length (running_offsets acc cs) = length cs"
  by (induction cs arbitrary: acc) auto

lemma running_offsets_nth:
  "k < length cs \<Longrightarrow> running_offsets acc cs ! k = acc + sum_list (take k cs)"
proof (induction cs arbitrary: acc k)
  case Nil then show ?case by simp
next
  case (Cons c cs)
  then show ?case by (cases k) auto
qed

lemma sum_list_chunk_sizes_take:
  "k \<le> P \<Longrightarrow> sum_list (take k (chunk_sizes P N)) = k * (N div P) + min k (N mod P)"
proof (induction k)
  case 0 then show ?case by simp
next
  case (Suc k)
  then have "take (Suc k) (chunk_sizes P N) = take k (chunk_sizes P N) @ [chunk_sizes P N ! k]"
    by (simp add: take_Suc_conv_app_nth chunk_sizes_def)
  with Suc show ?case by (auto simp: chunk_sizes_def min_def)
qed

lemma sum_list_chunk_sizes: "0 < P \<Longrightarrow> sum_list (chunk_sizes P N) = N"
proof -
  assume P: "0 < P"
  then have "N mod P < P" by simp
  then have "min P (N mod P) = N mod P" by simp
  then show ?thesis using sum_list_chunk_sizes_take[of P P N] by (simp add: chunk_sizes_def)
qed


lemma chunk_sizes_nth:
  "k < P \<Longrightarrow> chunk_sizes P N ! k = N div P + (if k < N mod P then 1 else 0)"
  by (simp add: chunk_sizes_def)

lemma offsets_nth:
  "k < P \<Longrightarrow> running_offsets 0 (chunk_sizes P N) ! k = k * (N div P) + min k (N mod P)"
proof -
  assume k: "k < P"
  then have "running_offsets 0 (chunk_sizes P N) ! k = sum_list (take k (chunk_sizes P N))"
    by (simp add: running_offsets_nth chunk_sizes_def)
  also have "\<dots> = k * (N div P) + min k (N mod P)"
    using k by (simp add: sum_list_chunk_sizes_take)
  finally show ?thesis .
qed

lemma offsets_step:
  assumes "1 \<le> k" "k < P"
  shows "running_offsets 0 (chunk_sizes P N) ! k =
         running_offsets 0 (chunk_sizes P N) ! (k - 1) + chunk_sizes P N ! (k - 1)"
proof -
  obtain j where j: "k = Suc j" using assms(1) by (cases k) auto
  with assms(2) have "j < P" by simp
  then show ?thesis using assms(2) j
    by (simp add: offsets_nth chunk_sizes_nth min_def)
qed

lemma range_end:
  "k < P \<Longrightarrow> running_offsets 0 (chunk_sizes P N) ! k + chunk_sizes P N ! k
     = Suc k * (N div P) + min (Suc k) (N mod P)"
  by (simp add: offsets_nth chunk_sizes_nth min_def)

lemma range_start_mono: "j \<le> k \<Longrightarrow> range_start P N j \<le> range_start P N k"
  unfolding range_start_def by (meson add_mono min.mono mult_le_mono1 order_refl)

lemma range_start_P: "0 < P \<Longrightarrow> range_start P N P = N"
proof -
  assume P: "0 < P"
  then have "N mod P < P" by simp
  then have "min P (N mod P) = N mod P" by simp
  then show ?thesis unfolding range_start_def by simp
qed

lemma cover_exists:
  assumes "0 < P" "i < N"
  shows "\<exists>k<P. range_start P N k \<le> i \<and> i < range_start P N (Suc k)"
proof -
  let ?S = "{k. k \<le> P \<and> i < range_start P N k}"
  have "P \<in> ?S" using assms by (simp add: range_start_P)
  define m where "m = (LEAST k. k \<in> ?S)"
  have mS: "m \<in> ?S" unfolding m_def by (rule LeastI[of "\<lambda>k. k \<in> ?S" P]) (fact \<open>P \<in> ?S\<close>)
  have "m \<noteq> 0" using mS by (cases m) (auto simp: range_start_def)
  then obtain k where k: "m = Suc k" by (cases m) auto
  have "k \<notin> ?S" using not_less_Least[of k "\<lambda>k. k \<in> ?S"] k unfolding m_def by auto
  with mS k have "range_start P N k \<le> i" by auto
  with mS k show ?thesis by (intro exI[of _ k]) auto
qed

lemma cover_unique:
  assumes "range_start P N j \<le> i" "i < range_start P N (Suc j)"
          "range_start P N k \<le> i" "i < range_start P N (Suc k)"
  shows "j = k"
proof (rule ccontr)
  assume "j \<noteq> k"
  then consider "Suc j \<le> k" | "Suc k \<le> j" by linarith
  then show False
  proof cases
    case 1 from range_start_mono[OF this, of P N] assms show False by linarith
  next
    case 2 from range_start_mono[OF this, of P N] assms show False by linarith
  qed
qed


lemma chunk_sizes_spread:
  assumes "0 < P"
  shows "Max (set (chunk_sizes P N)) \<le> Min (set (chunk_sizes P N)) + 1"
proof -
  have ne: "set (chunk_sizes P N) \<noteq> {}" using assms by (simp add: chunk_sizes_def)
  have up: "\<forall>c \<in> set (chunk_sizes P N). c \<le> N div P + 1"
    by (auto simp: chunk_sizes_def)
  have lo: "\<forall>c \<in> set (chunk_sizes P N). N div P \<le> c"
    by (auto simp: chunk_sizes_def)
  have "Max (set (chunk_sizes P N)) \<le> N div P + 1" using ne up by simp
  moreover have "N div P \<le> Min (set (chunk_sizes P N))" using ne lo by simp
  ultimately show ?thesis by linarith
qed

lemma ceil_div:
  fixes N P :: nat
  assumes P: "0 < P"
  shows "(N + P - 1) div P = N div P + (if N mod P = 0 then 0 else 1)"
proof -
  define q where "q = N div P"
  define r where "r = N mod P"
  have N: "N = P * q + r" and r: "r < P" using P by (simp_all add: q_def r_def)
  show ?thesis
  proof (cases "r = 0")
    case True
    have "N + P - 1 = P * q + (P - 1)" using N True P by simp
    moreover have "(P * q + (P - 1)) div P = q" using P by (subst div_mult_self4) auto
    ultimately show ?thesis using True by (simp add: q_def r_def)
  next
    case False
    have "N + P - 1 = P * (q + 1) + (r - 1)" using N False by simp
    moreover have "(P * (q + 1) + (r - 1)) div P = q + 1" using P r by (subst div_mult_self4) auto
    ultimately show ?thesis using False by (simp add: q_def r_def)
  qed
qed

text \<open>
  Claim C1. For every item count \<open>N\<close> and worker count \<open>P \<ge> 1\<close> the partitioner
  returns two arrays of length \<open>P\<close>; the sizes sum to \<open>N\<close>; the first offset is 0 and
  every later offset is the previous offset plus the previous size; the largest and the
  smallest size differ by at most 1, each being \<open>floor(N/P)\<close> or \<open>ceil(N/P)\<close>; the
  first \<open>N mod P\<close> workers are the ones that get the extra item; and every index below
  \<open>N\<close> lies in the range of exactly one worker, every range ending at or before \<open>N\<close>.
\<close>

theorem chunks_and_offsets_partition:
  assumes "1 \<le> P" and "chunks_and_offsets P N = (chunkSizes, offsets)"
  shows "length chunkSizes = P \<and> length offsets = P
       \<and> sum_list chunkSizes = N
       \<and> offsets ! 0 = 0
       \<and> (\<forall>k. 1 \<le> k \<and> k < P \<longrightarrow> offsets ! k = offsets ! (k - 1) + chunkSizes ! (k - 1))
       \<and> Max (set chunkSizes) - Min (set chunkSizes) \<le> 1
       \<and> (\<forall>k<P. chunkSizes ! k = N div P \<or> chunkSizes ! k = (N + P - 1) div P)
       \<and> (\<forall>k<P. chunkSizes ! k = N div P + (if k < N mod P then 1 else 0))
       \<and> (\<forall>k<P. offsets ! k + chunkSizes ! k \<le> N)
       \<and> (\<forall>i<N. \<exists>!k. k < P \<and> offsets ! k \<le> i \<and> i < offsets ! k + chunkSizes ! k)"
proof -
  have P: "0 < P" using assms(1) by simp
  have cs: "chunkSizes = chunk_sizes P N" and os: "offsets = running_offsets 0 (chunk_sizes P N)"
    using assms(2) by (auto simp: chunks_and_offsets_def Let_def)
  have st: "\<And>k. k < P \<Longrightarrow> offsets ! k = range_start P N k"
    unfolding os range_start_def by (rule offsets_nth)
  have en: "\<And>k. k < P \<Longrightarrow> offsets ! k + chunkSizes ! k = range_start P N (Suc k)"
    unfolding os cs range_start_def by (rule range_end)
  have c1: "length chunkSizes = P" by (simp add: cs chunk_sizes_def)
  have c2: "length offsets = P" by (simp add: os length_running_offsets chunk_sizes_def)
  have c3: "sum_list chunkSizes = N" unfolding cs using P by (rule sum_list_chunk_sizes)
  have c4: "offsets ! 0 = 0" using st[OF P] by (simp add: range_start_def)
  have c5: "\<forall>k. 1 \<le> k \<and> k < P \<longrightarrow> offsets ! k = offsets ! (k - 1) + chunkSizes ! (k - 1)"
    unfolding os cs using offsets_step by blast
  have c6: "Max (set chunkSizes) - Min (set chunkSizes) \<le> 1"
    using chunk_sizes_spread[OF P, of N] unfolding cs by linarith
  have c8: "\<forall>k<P. chunkSizes ! k = N div P + (if k < N mod P then 1 else 0)"
    unfolding cs by (simp add: chunk_sizes_nth)
  have c7: "\<forall>k<P. chunkSizes ! k = N div P \<or> chunkSizes ! k = (N + P - 1) div P"
  proof (intro allI impI)
    fix k assume k: "k < P"
    show "chunkSizes ! k = N div P \<or> chunkSizes ! k = (N + P - 1) div P"
      using c8 k ceil_div[OF P, of N] by (cases "k < N mod P") auto
  qed
  have c9: "\<forall>k<P. offsets ! k + chunkSizes ! k \<le> N"
  proof (intro allI impI)
    fix k assume k: "k < P"
    then have "range_start P N (Suc k) \<le> range_start P N P"
      by (intro range_start_mono) simp
    then show "offsets ! k + chunkSizes ! k \<le> N" using en[OF k] range_start_P[OF P, of N] by simp
  qed
  have c10: "\<forall>i<N. \<exists>!k. k < P \<and> offsets ! k \<le> i \<and> i < offsets ! k + chunkSizes ! k"
  proof (intro allI impI)
    fix i assume i: "i < N"
    from cover_exists[OF P i] obtain k where k: "k < P"
      "range_start P N k \<le> i" "i < range_start P N (Suc k)" by blast
    show "\<exists>!k. k < P \<and> offsets ! k \<le> i \<and> i < offsets ! k + chunkSizes ! k"
    proof (rule ex1I[of _ k])
      show "k < P \<and> offsets ! k \<le> i \<and> i < offsets ! k + chunkSizes ! k"
        using k st[OF k(1)] en[OF k(1)] by simp
    next
      fix j assume j: "j < P \<and> offsets ! j \<le> i \<and> i < offsets ! j + chunkSizes ! j"
      then have "range_start P N j \<le> i" "i < range_start P N (Suc j)"
        using st[of j] en[of j] by simp_all
      then show "j = k" using k(2,3) by (rule cover_unique)
    qed
  qed
  from c1 c2 c3 c4 c5 c6 c7 c8 c9 c10 show ?thesis by blast
qed

theorem chunks_and_offsets_partition_witness:
  "(1::nat) \<le> 3 \<and> chunks_and_offsets 3 10 = ([4, 3, 3], [0, 4, 7])
   \<and> sum_list [4, 3, 3::nat] = 10 \<and> Max (set [4, 3, 3::nat]) - Min (set [4, 3, 3]) \<le> 1"
proof -
  have h: "(1::nat) \<le> 3" by simp
  have e: "chunks_and_offsets 3 10 = ([4, 3, 3], [0, 4, 7])" by code_simp
  from chunks_and_offsets_partition[OF h e] h e show ?thesis by blast
qed

section \<open>Properties of the converter\<close>

text \<open>
  Claim C2. Run as a program, the module has \<^verbatim>\<open>__name__ == "__main__"\<close>. The guard
  compares with the string that starts with a space, so it is false, \<^verbatim>\<open>main\<close> is not
  called, and the file at the output path is left as it was: nothing is converted and
  no archive is created.
\<close>

theorem script_never_calls_main:
  "\<not> entry_guard ''__main__'' \<and> convert_script ''__main__'' env file = (None, file)"
  by (simp add: entry_guard_def convert_script_def)

lemma mean_profile_Array2:
  "mean_profile env (Array2 nr nc f) = Inl (if nc \<le> 2 then IndexError else TypeError)"
  by (simp add: mean_profile_def str_getitem_tuple_def)

text \<open>
  Claim C3. Whenever \<^verbatim>\<open>np.genfromtxt\<close> returns a two-dimensional array for the
  mean-profile file, \<^verbatim>\<open>main\<close> raises and leaves the file at the output path untouched:
  with exactly two columns the exception is the \<^verbatim>\<open>IndexError\<close> of \<^verbatim>\<open>uMean[:, 2]\<close>,
  with three or more the \<^verbatim>\<open>TypeError\<close> of indexing the file name. The outcome does
  not depend on the point reader or on the archive, which are never reached.
\<close>

theorem main_raises_before_archive:
  assumes "listdir_dataDir env = Inr listing"
    and "genfromtxt env (uMeanFile env) = Inr (Array2 nr nc f)"
  shows "main env file = (Some (if nc \<le> 2 then IndexError else TypeError), file)"
  using assms by (simp add: main_def mean_profile_Array2)

theorem main_raises_before_archive_witness:
  "listdir_dataDir example_env = Inr [''0.2'', ''0.1'']
   \<and> genfromtxt example_env (uMeanFile example_env) = Inr example_uMean
   \<and> main example_env None = (Some IndexError, None)"
proof -
  have l: "listdir_dataDir example_env = Inr [''0.2'', ''0.1'']"
    by (simp add: example_env_def)
  have g: "genfromtxt example_env (uMeanFile example_env)
           = Inr (Array2 2 2 (\<lambda>i j. [[0, 0], [1, 10]] ! i ! j))"
    by (simp add: example_env_def example_uMean_def)
  from main_raises_before_archive [OF l g, of None] l g show ?thesis
    by (simp add: example_uMean_def)
qed

text \<open>
  Claim C7, evaluated on the code. A mean-profile file with the two columns \<open>y\<close> and
  \<open>Ux\<close> is not given a zero \<open>Uy\<close>: the test \<^verbatim>\<open>uMean.shape[1] == 2\<close> sends it to
  \<^verbatim>\<open>uMean[:, 2]\<close>, which is out of bounds. A file with three columns is not read
  either: it takes the zeros branch and then fails on \<^verbatim>\<open>uMeanFile[:, 0]\<close>.
\<close>

theorem mean_profile_two_and_three_columns_raise:
  "mean_profile example_env example_uMean = Inl IndexError
   \<and> mean_profile example_env (Array2 2 3 (\<lambda>i j. [[0, 0, 0], [1, 10, 1]] ! i ! j)) = Inl TypeError"
  by (simp add: mean_profile_def example_uMean_def str_getitem_tuple_def)

text \<open>
  Claim C8, evaluated on the code. The assertion compares \<open>nPointsY\<close> with
  \<^verbatim>\<open>uMean.size\<close>, the number of entries of the whole two-dimensional array, not with
  its number of rows. A profile of two rows and a grid with \<open>nPointsY = 2\<close> agree, and
  the assertion fails; with \<open>nPointsY = 4\<close> they differ, and it passes.
\<close>

theorem grid_assertion_compares_with_size:
  "np_shape example_uMean = [2, 2]
   \<and> read_grid example_env [''0.1'', ''0.2''] (Array1 [0, 1])
       = Inr (fst example_grid, snd example_grid, 2, 3)
   \<and> \<not> grid_assertion 2 example_uMean
   \<and> convert_from_grid example_env [''0.1'', ''0.2''] example_uMean [0, 10] [0, 0] (Array1 [0, 1]) None
       = (Some AssertionError, None)
   \<and> grid_assertion 4 example_uMean"
  by (simp add: example_uMean_def example_grid_def example_env_def read_grid_def py_first_def
      grid_assertion_def convert_from_grid_def)

section \<open>Properties of the rescaling driver\<close>

subsection \<open>The two counts and the parameters\<close>







subsection \<open>The scenario, evaluated\<close>

lemma sort_scenario_times: "sort [''0.2'', ''0.1''] = [''0.1'', ''0.2'']"
  by code_simp

lemma upt_small: "[0..<4] = [0, 1, 2, 3]" "[0..<3] = [0, 1, 2]" "[0..<2] = [0, 1]"
  by code_simp+

lemma scenario_read_settings:
  "read_settings (scenario_env scenario_config) = Inr scenario_settings"
  "read_settings (scenario_env bad_reader_config) = Inr (scenario_settings\<lparr>reader := ''hdf5''\<rparr>)"
  "read_settings (scenario_env bad_inflow_reader_config)
     = Inr (scenario_settings\<lparr>inflowReader := ''hdf5''\<rparr>)"
  "read_settings (scenario_env bad_writer_config) = Inr (scenario_settings\<lparr>writer := ''vtk''\<rparr>)"
  "read_settings (scenario_env bad_delta_config) = Inr scenario_settings"
  by (simp_all add: read_settings_def config_def scenario_env_def scenario_config_def
      scenario_settings_def bad_reader_config_def bad_inflow_reader_config_def
      bad_writer_config_def bad_delta_config_def)

lemma scenario_read_precursor:
  "reader s = ''foamFile'' \<Longrightarrow>
   read_precursor (scenario_env cfg) s
     = Inr (tms scenario_database, uMean scenario_database,
            pointsY scenario_database, pointsZ scenario_database)"
  by (simp add: read_precursor_def scenario_env_def sort_scenario_times py_last_def
      py_first_def upt_small scenario_database_def)

lemma scenario_read_database:
  "reader s = ''foamFile'' \<Longrightarrow> inflowReader s = ''foamFile'' \<Longrightarrow>
   read_database (scenario_env cfg) s = Inr scenario_database"
  by (simp add: read_database_def scenario_read_precursor)
     (simp add: read_inflow_def scenario_env_def scenario_database_def)

lemma scenario_read_parameters:
  "read_parameters (scenario_env scenario_config) = Inr scenario_parameters"
  "read_parameters (scenario_env bad_writer_config) = Inr scenario_parameters"
  "read_parameters (scenario_env bad_delta_config) = Inr (scenario_parameters\<lparr>deltaInfl := 10\<rparr>)"
  by (simp_all add: read_parameters_def config_float_def config_int_def config_def
      scenario_env_def scenario_config_def scenario_float_def skin_friction_def
      scenario_parameters_def bad_writer_config_def bad_delta_config_def)

lemma scenario_scale_coordinates:
  "scale_coordinates (scenario_env cfg) scenario_database scenario_parameters
     = Inr scenario_coordinates"
  by (simp add: scale_coordinates_def scenario_env_def scenario_database_def
      scenario_parameters_def scenario_coordinates_def upt_small py_last_def Let_def
      numeral_2_eq_2)

lemma scenario_scale_coordinates_delta:
  "scale_coordinates (scenario_env cfg) scenario_database (scenario_parameters\<lparr>deltaInfl := 10\<rparr>)
     = Inr (scenario_coordinates
             \<lparr>etaInfl := [1 / 1000, 1 / 250, 51 / 10000, 1 / 125], nInfl := 4, nInner := 4\<rparr>)"
  by (simp add: scale_coordinates_def scenario_env_def scenario_database_def
      scenario_parameters_def scenario_coordinates_def upt_small py_last_def Let_def
      eval_nat_numeral)


lemma scenario_initialise_bad_writer:
  "initialise (scenario_env bad_writer_config)
     = Inr (scenario_settings\<lparr>writer := ''vtk''\<rparr>, scenario_database, scenario_parameters,
            scenario_coordinates)"
  by (simp add: initialise_def scenario_read_settings scenario_read_parameters
      scenario_read_database scenario_scale_coordinates scenario_settings_def)

lemma scenario_initialise_bad_delta:
  "initialise (scenario_env bad_delta_config)
     = Inr (scenario_settings, scenario_database, scenario_parameters\<lparr>deltaInfl := 10\<rparr>,
            scenario_coordinates
             \<lparr>etaInfl := [1 / 1000, 1 / 250, 51 / 10000, 1 / 125], nInfl := 4, nInner := 4\<rparr>)"
  by (simp add: initialise_def scenario_read_settings scenario_read_parameters
      scenario_read_database scenario_scale_coordinates_delta scenario_settings_def)

lemma scenario_sanity_checks:
  "sanity_checks scenario_parameters scenario_coordinates = Inr 3"
  by (simp add: sanity_checks_def scenario_parameters_def scenario_coordinates_def
      py_last_def database_size_def int_of_float_def)

lemma scenario_prepare_writer:
  "prepare_writer (scenario_env cfg) scenario_settings scenario_database 3
     = Inr (Some scenario_archive)"
  by (simp add: prepare_writer_def scenario_settings_def scenario_database_def
      scenario_env_def prepare_hdf5_def create_time_dataset_def create_velocity_dataset_def
      create_dataset_def scenario_points_def scenario_archive_def)

subsection \<open>The count of inflow points inside the boundary layer\<close>




subsection \<open>Failed validation\<close>

text \<open>
  Claim C5 as stated, refuted. With the reader \<^verbatim>\<open>hdf5\<close>, which the driver does not
  know, the error is reported and the process ends with exit status 0.
\<close>

theorem unknown_reader_exit_status_counterexample:
  "driver (scenario_env bad_reader_config) = Exited 0 [UnknownReader ''hdf5'']
   \<and> process_status (driver (scenario_env bad_reader_config)) = 0"
  by (simp add: driver_def initialise_def scenario_read_settings read_database_def
      read_precursor_def scenario_settings_def exit_no_argument_def)

lemma driver_unknown_reader:
  assumes "read_settings env = Inr s" "reader s \<noteq> ''foamFile''"
  shows "driver env = Exited 0 [UnknownReader (reader s)]"
  using assms
  by (simp add: driver_def initialise_def read_database_def read_precursor_def
      exit_no_argument_def)

lemma driver_unknown_inflow_reader:
  assumes "read_settings env = Inr s" "read_precursor env s = Inr pre"
    "inflowReader s \<noteq> ''foamFile''"
  shows "driver env = Exited 0 [UnknownReader (inflowReader s)]"
  using assms
  by (simp add: driver_def initialise_def read_database_def read_inflow_def
      exit_no_argument_def split: prod.splits)

lemma driver_delta_too_large:
  assumes "initialise env = Inr (s, db, p, c)" "py_last (yInfl c) = Inr yTop"
    "deltaInfl p > yTop"
  shows "driver env = Exited 0 [Delta99TooLarge]"
  using assms by (simp add: driver_def sanity_checks_def exit_no_argument_def)

lemma driver_unknown_writer:
  assumes "initialise env = Inr (s, db, p, c)" "sanity_checks p c = Inr n"
    "writer s \<noteq> ''tvmfv''" "writer s \<noteq> ''hdf5''"
  shows "driver env = Exited 0 [UnknownWriter (writer s)]"
  using assms by (simp add: driver_def prepare_writer_def exit_no_argument_def)

lemma read_database_exit:
  "read_database env s = Inl (Exited status msgs) \<Longrightarrow> status = 0"
  unfolding read_database_def read_precursor_def read_inflow_def exit_no_argument_def
  by (auto simp: Let_def split: sum.splits if_splits prod.splits)

lemma initialise_exit: "initialise env = Inl (Exited status msgs) \<Longrightarrow> status = 0"
  unfolding initialise_def
  by (auto split: sum.splits dest: read_database_exit)

lemma sanity_checks_exit: "sanity_checks p c = Inl (Exited status msgs) \<Longrightarrow> status = 0"
  unfolding sanity_checks_def exit_no_argument_def
  by (auto split: sum.splits if_splits)

lemma prepare_writer_exit:
  "prepare_writer env s db n = Inl (Exited status msgs) \<Longrightarrow> status = 0"
  unfolding prepare_writer_def exit_no_argument_def
  by (auto split: option.splits if_splits prod.splits)

lemma generate_exit: "generate env \<noteq> Exited status msgs"
  unfolding generate_def by (auto split: sum.splits option.splits)

lemma driver_exit_status: "driver env = Exited status msgs \<Longrightarrow> status = 0"
  unfolding driver_def
  by (auto split: sum.splits prod.splits
      dest: initialise_exit sanity_checks_exit prepare_writer_exit simp: generate_exit)

text \<open>
  Claim C5, amended. When the driver reaches a validation that fails, it reports the
  error and calls \<^verbatim>\<open>exit()\<close> without an argument, so the process ends with exit status
  0: for an unknown reader; for an unknown inflow reader, once the precursor has been
  read; for a desired thickness above the last inflow coordinate, once the coordinates
  are computed; for an unknown writer, once the sanity checks have passed. Every
  \<^verbatim>\<open>exit()\<close> of the driver has status 0; a status other than 0 comes from an uncaught
  exception only.
\<close>

theorem validation_failure_reports_and_exits_with_status_zero:
  "(read_settings env = Inr s \<and> reader s \<noteq> ''foamFile''
      \<longrightarrow> driver env = Exited 0 [UnknownReader (reader s)])
   \<and> (read_settings env = Inr s \<and> read_precursor env s = Inr pre
        \<and> inflowReader s \<noteq> ''foamFile''
      \<longrightarrow> driver env = Exited 0 [UnknownReader (inflowReader s)])
   \<and> (initialise env = Inr (s, db, p, c) \<and> py_last (yInfl c) = Inr yTop \<and> deltaInfl p > yTop
      \<longrightarrow> driver env = Exited 0 [Delta99TooLarge])
   \<and> (initialise env = Inr (s, db, p, c) \<and> sanity_checks p c = Inr n
        \<and> writer s \<noteq> ''tvmfv'' \<and> writer s \<noteq> ''hdf5''
      \<longrightarrow> driver env = Exited 0 [UnknownWriter (writer s)])
   \<and> (driver env = Exited status msgs \<longrightarrow> status = 0)
   \<and> (process_status (driver env) \<noteq> 0 \<longrightarrow> (\<exists>e. driver env = Raised e))"
proof -
  have "process_status (driver env) \<noteq> 0 \<longrightarrow> (\<exists>e. driver env = Raised e)"
    using driver_exit_status [of env] by (cases "driver env") auto
  then show ?thesis
    using driver_unknown_reader driver_unknown_inflow_reader driver_delta_too_large
      driver_unknown_writer driver_exit_status by blast
qed

theorem validation_failure_reports_and_exits_with_status_zero_witness:
  "driver (scenario_env bad_reader_config) = Exited 0 [UnknownReader ''hdf5'']
   \<and> driver (scenario_env bad_inflow_reader_config) = Exited 0 [UnknownReader ''hdf5'']
   \<and> driver (scenario_env bad_delta_config) = Exited 0 [Delta99TooLarge]
   \<and> driver (scenario_env bad_writer_config) = Exited 0 [UnknownWriter ''vtk'']"
proof -
  let ?pre = "(tms scenario_database, uMean scenario_database,
               pointsY scenario_database, pointsZ scenario_database)"
  let ?c = "scenario_coordinates
             \<lparr>etaInfl := [1 / 1000, 1 / 250, 51 / 10000, 1 / 125], nInfl := 4, nInner := 4\<rparr>"
  have a: "driver (scenario_env bad_reader_config) = Exited 0 [UnknownReader ''hdf5'']"
    using validation_failure_reports_and_exits_with_status_zero
      [of "scenario_env bad_reader_config" "scenario_settings\<lparr>reader := ''hdf5''\<rparr>"]
    by (simp add: scenario_read_settings)
  have b: "driver (scenario_env bad_inflow_reader_config) = Exited 0 [UnknownReader ''hdf5'']"
    using validation_failure_reports_and_exits_with_status_zero
      [of "scenario_env bad_inflow_reader_config"
          "scenario_settings\<lparr>inflowReader := ''hdf5''\<rparr>" ?pre]
    by (simp add: scenario_read_settings scenario_read_precursor scenario_settings_def)
  have c: "driver (scenario_env bad_delta_config) = Exited 0 [Delta99TooLarge]"
    using validation_failure_reports_and_exits_with_status_zero
      [of "scenario_env bad_delta_config" scenario_settings _ scenario_database
          "scenario_parameters\<lparr>deltaInfl := 10\<rparr>" ?c "2 / 25"]
    by (simp add: scenario_initialise_bad_delta)
       (simp add: scenario_coordinates_def scenario_parameters_def py_last_def)
  have d: "driver (scenario_env bad_writer_config) = Exited 0 [UnknownWriter ''vtk'']"
    using validation_failure_reports_and_exits_with_status_zero
      [of "scenario_env bad_writer_config" "scenario_settings\<lparr>writer := ''vtk''\<rparr>" _
          scenario_database scenario_parameters scenario_coordinates _ 3]
    by (simp add: scenario_initialise_bad_writer scenario_sanity_checks)
  from a b c d show ?thesis by blast
qed

subsection \<open>The layout of the archives\<close>

lemma run_ops_Nil_iff: "run_ops [] f = (None, g) \<longleftrightarrow> g = f"
  by auto

lemma run_ops_Cons_iff:
  "run_ops (op # ops) f = (None, g) \<longleftrightarrow> (\<exists>f'. op f = (None, f') \<and> run_ops ops f' = (None, g))"
  by (auto split: prod.splits option.splits)

lemma create_group_iff:
  "create_group name f = (None, g) \<longleftrightarrow>
   name \<notin> dom (nodes f) \<and> g = f\<lparr>nodes := (nodes f)(name \<mapsto> Group)\<rparr>"
  by (auto simp: create_group_def)

lemma create_dataset_iff:
  "create_dataset name shp f = (None, g) \<longleftrightarrow>
   name \<notin> dom (nodes f) \<and> g = f\<lparr>nodes := (nodes f)(name \<mapsto> Dataset shp)\<rparr>"
  by (auto simp: create_dataset_def)

lemma create_times_dataset_iff:
  "create_times_dataset env timeDirs f = (None, g) \<longleftrightarrow>
   (\<forall>t \<in> set timeDirs. py_float env t \<noteq> None) \<and> ''velocity/times'' \<notin> dom (nodes f)
   \<and> g = f\<lparr>nodes := (nodes f)(''velocity/times'' \<mapsto> Dataset [length timeDirs])\<rparr>"
  by (auto simp: create_times_dataset_def create_dataset_iff)

lemma set_attr_iff:
  "set_attr name v f = (None, g) \<longleftrightarrow> g = f\<lparr>attrs := (attrs f)(name \<mapsto> v)\<rparr>"
  by (auto simp: set_attr_def)

lemmas h5op_iffs =
  run_ops_Nil_iff run_ops_Cons_iff create_group_iff create_dataset_iff
  create_times_dataset_iff set_attr_iff

lemma write_layout_database_layout:
  assumes "write_layout env timeDirs (Array2 ny nz a) pZ ny nz uMeanX uMeanY f = (None, g)"
  shows "database_layout g (length timeDirs) ny nz"
  using assms
  by (simp add: write_layout_def h5op_iffs database_layout_def is_dataset_def
      del: run_ops.simps)

lemma read_grid_shape:
  "read_grid env timeDirs y = Inr (pY, pZ, ny, nz) \<Longrightarrow> \<exists>a. pY = Array2 ny nz a"
  unfolding read_grid_def
  by (auto split: sum.splits prod.splits ndarray.splits)

lemma convert_from_grid_database_layout:
  assumes "convert_from_grid env timeDirs uMean' uMeanX uMeanY y file = (None, Some g)"
  shows "\<exists>ny nz. database_layout g (length timeDirs) ny nz"
proof -
  from assms obtain pY pZ ny nz f where
    rg: "read_grid env timeDirs y = Inr (pY, pZ, ny, nz)" and
    wl: "write_layout env timeDirs pY pZ ny nz uMeanX uMeanY f = (None, g)"
    unfolding convert_from_grid_def
    by (auto simp: Let_def split: sum.splits prod.splits if_splits option.splits)
  from read_grid_shape [OF rg] obtain a where "pY = Array2 ny nz a" by blast
  with wl show ?thesis using write_layout_database_layout by blast
qed

lemma write_layout_fresh:
  assumes "\<forall>t \<in> set timeDirs. py_float env t \<noteq> None"
  shows "\<exists>g. write_layout env timeDirs pY pZ ny nz uMeanX uMeanY h5_empty = (None, g)"
  using assms
  by (simp add: write_layout_def h5op_iffs h5_empty_def del: run_ops.simps)

lemma prepare_hdf5_result:
  assumes "prepare_hdf5 n m f = (None, g)"
  shows "0 \<le> n \<and> g = f\<lparr>nodes := (nodes f)(''time'' \<mapsto> Dataset [nat n, 1],
                                            ''velocity'' \<mapsto> Dataset [nat n, m, 3])\<rparr>"
  using assms
  by (auto simp: prepare_hdf5_def create_time_dataset_def create_velocity_dataset_def
      h5op_iffs simp del: run_ops.simps split: if_splits)

lemma prepare_writer_archive:
  assumes "prepare_writer env s db n = Inr (Some g)"
  shows "writer s = ''hdf5'' \<and> 0 \<le> n
       \<and> g = (hdf5_opened env)\<lparr>nodes := (nodes (hdf5_opened env))
               (''time'' \<mapsto> Dataset [nat n, 1],
                ''velocity'' \<mapsto> Dataset [nat n, np_size (pointsZInfl db), 3])\<rparr>"
  using assms unfolding prepare_writer_def
  by (auto split: if_splits option.splits prod.splits dest: prepare_hdf5_result)

text \<open>
  Claim C6 as stated, refuted. In the scenario the driver, with the writer \<^verbatim>\<open>hdf5\<close>,
  leaves an archive in which \<^verbatim>\<open>velocity\<close> is a dataset of shape \<open>(3, 8, 3)\<close>, not a
  group; the archive has no dataset \<^verbatim>\<open>velocity/uX\<close> and does not have the layout.
\<close>

theorem driver_archive_layout_counterexample:
  "prepare_writer (scenario_env scenario_config) scenario_settings scenario_database 3
     = Inr (Some scenario_archive)
   \<and> nodes scenario_archive ''velocity'' = Some (Dataset [3, 8, 3])
   \<and> nodes scenario_archive ''velocity/uX'' = None
   \<and> \<not> database_layout scenario_archive 3 4 2"
  by (simp add: scenario_prepare_writer)
     (simp add: scenario_archive_def database_layout_def)

text \<open>
  Claim C6, amended. An archive that the converter has laid out (lines 93 to 122,
  when they are reached) has the group \<^verbatim>\<open>points\<close> with \<^verbatim>\<open>pointsY\<close> and \<^verbatim>\<open>pointsZ\<close>,
  the group \<^verbatim>\<open>velocity\<close> with \<^verbatim>\<open>uMeanX\<close>, \<^verbatim>\<open>uMeanY\<close>, \<^verbatim>\<open>times\<close> and
  \<^verbatim>\<open>uX\<close>, \<^verbatim>\<open>uY\<close>, \<^verbatim>\<open>uZ\<close> of shape \<open>(nTimes, nPointsY, nPointsZ)\<close>, and the three
  root attributes; on a fresh archive the layout is written without an exception
  whenever every time directory has a numeric name. An archive of the driver is a
  different one: to what \<^verbatim>\<open>write_points_to_hdf5\<close> left, the driver adds the root
  datasets \<^verbatim>\<open>time\<close> of shape \<open>(size, 1)\<close> and \<^verbatim>\<open>velocity\<close> of shape
  \<open>(size, pointsZInfl.size, 3)\<close> and nothing else, so \<^verbatim>\<open>velocity\<close> is not a group and
  the archive does not have the converter's layout.
\<close>

theorem archive_layouts:
  "(convert_from_grid cenv timeDirs uMean' uMeanX uMeanY y file = (None, Some g)
      \<longrightarrow> (\<exists>ny nz. database_layout g (length timeDirs) ny nz))
   \<and> (write_layout cenv timeDirs (Array2 ny nz a) pZ ny nz uMeanX uMeanY f = (None, g')
      \<longrightarrow> database_layout g' (length timeDirs) ny nz)
   \<and> ((\<forall>t \<in> set timeDirs. py_float cenv t \<noteq> None)
      \<longrightarrow> (\<exists>g. write_layout cenv timeDirs pY pZ ny nz uMeanX uMeanY h5_empty = (None, g)))
   \<and> (prepare_writer env s db n = Inr (Some h)
      \<longrightarrow> writer s = ''hdf5'' \<and> 0 \<le> n
          \<and> h = (hdf5_opened env)\<lparr>nodes := (nodes (hdf5_opened env))
                  (''time'' \<mapsto> Dataset [nat n, 1],
                   ''velocity'' \<mapsto> Dataset [nat n, np_size (pointsZInfl db), 3])\<rparr>
          \<and> nodes h ''velocity'' \<noteq> Some Group
          \<and> \<not> database_layout h nTimes nPointsY nPointsZ)"
proof -
  have "prepare_writer env s db n = Inr (Some h)
      \<longrightarrow> writer s = ''hdf5'' \<and> 0 \<le> n
          \<and> h = (hdf5_opened env)\<lparr>nodes := (nodes (hdf5_opened env))
                  (''time'' \<mapsto> Dataset [nat n, 1],
                   ''velocity'' \<mapsto> Dataset [nat n, np_size (pointsZInfl db), 3])\<rparr>
          \<and> nodes h ''velocity'' \<noteq> Some Group
          \<and> \<not> database_layout h nTimes nPointsY nPointsZ"
  proof
    assume "prepare_writer env s db n = Inr (Some h)"
    from prepare_writer_archive [OF this] show "writer s = ''hdf5'' \<and> 0 \<le> n
          \<and> h = (hdf5_opened env)\<lparr>nodes := (nodes (hdf5_opened env))
                  (''time'' \<mapsto> Dataset [nat n, 1],
                   ''velocity'' \<mapsto> Dataset [nat n, np_size (pointsZInfl db), 3])\<rparr>
          \<and> nodes h ''velocity'' \<noteq> Some Group
          \<and> \<not> database_layout h nTimes nPointsY nPointsZ"
      by (simp add: database_layout_def)
  qed
  moreover have "convert_from_grid cenv timeDirs uMean' uMeanX uMeanY y file = (None, Some g)
      \<longrightarrow> (\<exists>ny nz. database_layout g (length timeDirs) ny nz)"
    using convert_from_grid_database_layout by blast
  moreover have "write_layout cenv timeDirs (Array2 ny nz a) pZ ny nz uMeanX uMeanY f = (None, g')
      \<longrightarrow> database_layout g' (length timeDirs) ny nz"
    using write_layout_database_layout by blast
  moreover have "(\<forall>t \<in> set timeDirs. py_float cenv t \<noteq> None)
      \<longrightarrow> (\<exists>g. write_layout cenv timeDirs pY pZ ny nz uMeanX uMeanY h5_empty = (None, g))"
    using write_layout_fresh by blast
  ultimately show ?thesis by (intro conjI)
qed

lemma example_layout:
  "write_layout example_env [''0.1'', ''0.2''] (fst example_grid) (snd example_grid) 2 3
     [0, 10] [0, 0] h5_empty = (None, example_archive)"
  by (simp add: write_layout_def h5_empty_def create_group_def create_dataset_def
      create_times_dataset_def set_attr_def example_env_def example_grid_def numeral_2_eq_2
      example_archive_def)

theorem archive_layouts_witness:
  "write_layout example_env [''0.1'', ''0.2''] (fst example_grid) (snd example_grid) 2 3
     [0, 10] [0, 0] h5_empty = (None, example_archive)
   \<and> database_layout example_archive 2 2 3
   \<and> prepare_writer (scenario_env scenario_config) scenario_settings scenario_database 3
       = Inr (Some scenario_archive)
   \<and> writer scenario_settings = ''hdf5''
   \<and> nodes scenario_archive ''velocity'' \<noteq> Some Group"
proof -
  have w: "write_layout example_env [''0.1'', ''0.2'']
             (Array2 2 3 (\<lambda>i j. real i)) (snd example_grid) 2 3 [0, 10] [0, 0] h5_empty
           = (None, example_archive)"
    using example_layout by (simp add: example_grid_def)
  have "write_layout example_env [''0.1'', ''0.2'']
             (Array2 2 3 (\<lambda>i j. real i)) (snd example_grid) 2 3 [0, 10] [0, 0] h5_empty
           = (None, example_archive)
        \<longrightarrow> database_layout example_archive (length [''0.1'', ''0.2'']) 2 3"
    using archive_layouts [where cenv = example_env and timeDirs = "[''0.1'', ''0.2'']"
        and ny = 2 and nz = 3 and a = "\<lambda>i j. real i" and pZ = "snd example_grid"
        and uMeanX = "[0, 10]" and uMeanY = "[0, 0]" and f = h5_empty
        and g' = example_archive]
    by blast
  with w have l: "database_layout example_archive 2 2 3" by (simp add: numeral_2_eq_2)
  have p: "prepare_writer (scenario_env scenario_config) scenario_settings scenario_database 3
             = Inr (Some scenario_archive)"
    by (rule scenario_prepare_writer)
  have "prepare_writer (scenario_env scenario_config) scenario_settings scenario_database 3
             = Inr (Some scenario_archive)
        \<longrightarrow> writer scenario_settings = ''hdf5''
            \<and> nodes scenario_archive ''velocity'' \<noteq> Some Group"
    using archive_layouts [where env = "scenario_env scenario_config"
        and s = scenario_settings and db = scenario_database and n = 3
        and h = scenario_archive]
    by blast
  with p have d: "writer scenario_settings = ''hdf5''
       \<and> nodes scenario_archive ''velocity'' \<noteq> Some Group" by simp
  from example_layout l p d show ?thesis by simp
qed

subsection \<open>The number of time-steps\<close>









end
